theory Spec2Isabelle
  imports Complex_Main "HOL-Library.AList" "HOL-Library.Sublist"
begin

section \<open>hangups.client: a shallow embedding of the \<open>Client\<close> class\<close>

text \<open>
  The theory follows \<^verbatim>\<open>src/hangups/client.py\<close>. A coroutine of the source becomes a
  function from the client object to an outcome (an exception or a value) and the updated
  client object; \<^verbatim>\<open>yield from\<close> runs the awaited coroutine to completion, so it is function
  application. Everything the client does to its surroundings (HTTP requests, maps sent on
  the channel, records handed to subscribers, log lines) is appended to the \<open>trace\<close> field,
  in program order. The collaborators that are not part of \<^verbatim>\<open>client.py\<close> (the JSON and
  pblite codecs, the HTTP fetch primitive, the channel, the generated protocol constants) are
  the fields of an environment record, which the general theorems leave arbitrary.
\<close>

subsection \<open>Python values and exceptions\<close>

datatype error =
    KeyError string
  | IndexError
  | TypeError
  | ValueError
  | NetworkError string

text \<open>
  What \<^verbatim>\<open>json.loads\<close> produces: \<^verbatim>\<open>None\<close>, booleans, integers, strings, lists and
  dictionaries with string keys (an association list, looked up from the front). Numbers
  with a fraction are left out; no operation of the client tells them from integers.
\<close>

datatype pyobj =
    PyNone
  | PyBool bool
  | PyInt int
  | PyStr string
  | PyList "pyobj list"
  | PyDict "(string \<times> pyobj) list"

text \<open>\<^verbatim>\<open>obj[key]\<close> for a string key: only a dictionary accepts it.\<close>

fun getitem :: "pyobj \<Rightarrow> string \<Rightarrow> error + pyobj" where
  "getitem (PyDict kvs) k = (case map_of kvs k of None \<Rightarrow> Inl (KeyError k) | Some v \<Rightarrow> Inr v)"
| "getitem _ k = Inl TypeError"

text \<open>\<^verbatim>\<open>obj[0]\<close>: the first element of a list, the first character of a string; a
  dictionary decoded from JSON has no integer key.\<close>

fun getitem0 :: "pyobj \<Rightarrow> error + pyobj" where
  "getitem0 (PyList []) = Inl IndexError"
| "getitem0 (PyList (x # xs)) = Inr x"
| "getitem0 (PyStr []) = Inl IndexError"
| "getitem0 (PyStr (ch # s)) = Inr (PyStr [ch])"
| "getitem0 (PyDict kvs) = Inl (KeyError ''0'')"
| "getitem0 _ = Inl TypeError"

text \<open>\<^verbatim>\<open>key in obj\<close> for a string key: a key of a dictionary, an element of a list, a
  substring of a string; anything else is not iterable.\<close>

fun contains :: "string \<Rightarrow> pyobj \<Rightarrow> error + bool" where
  "contains k (PyDict kvs) = Inr (map_of kvs k \<noteq> None)"
| "contains k (PyList xs) = Inr (PyStr k \<in> set xs)"
| "contains k (PyStr s) = Inr (sublist k s)"
| "contains k _ = Inl TypeError"

subsection \<open>Protocol messages\<close>

record client_version =
  major_version :: string

record request_header =
  client_version :: client_version
  language_code :: string
  resource :: "string option"

record response_header =
  status :: int
  error_description :: string

record response_pb =
  response_header :: response_header

record get_self_info_response = response_pb +
  self_entity_properties_email :: "string list"

record state_update_header =
  header_active_client_state :: int

record state_update =
  state_update_header :: state_update_header
  state_update_body :: string

datatype request_pb =
    GetSelfInfoRequest request_header
  | SetActiveClientRequest request_header bool string int

subsection \<open>Observable effects\<close>

record http_request =
  http_method :: string
  url :: string
  headers :: "(string \<times> string) list"
  request_cookies :: "(string \<times> string) list"
  params :: "(string \<times> string) list"
  data :: string

record fetch_response =
  code :: int
  body :: string

datatype level = DEBUG | INFO | WARNING

datatype log_record =
    ReceivedNewClientId pyobj
  | AddingChannelServices
  | ChannelServicesAdded
  | ReceivedStateUpdate state_update
  | IgnoringMessage pyobj
  | SendingRequest string request_pb
  | ReceivedResponse
  | FailedToFindEmail string
  | CannotSetActiveClient
  | FailedToSetActiveClient string
  | SetActiveClientFor int

type_synonym observer = nat

datatype effect =
    Fetch http_request
  | SendMaps "(string \<times> string) list list"
  | Deliver observer state_update "int option"
  | Log level log_record

subsection \<open>The client object and its environment\<close>

record client =
  on_state_update :: "observer list"
  cookies :: "string \<rightharpoonup> string"
  request_header :: request_header
  client_id :: pyobj
  email :: "string option"
  last_active_secs :: real
  active_client_state :: "int option"
  trace :: "effect list"

text \<open>
  The collaborators. The two that perform input or output, \<open>fetch\<close> and \<open>send_maps\<close>, also
  receive the trace so far: their answer may depend on everything that happened before.
\<close>

record env =
  ACTIVE_CLIENT_STATE_IS_ACTIVE :: int
  RESPONSE_STATUS_OK :: int
  version :: string
  json_loads :: "string \<Rightarrow> error + pyobj"
  decode_batch_update :: "pyobj \<Rightarrow> state_update list"
  encode :: "request_pb \<Rightarrow> string"
  decode_get_self_info_response :: "string \<Rightarrow> error + get_self_info_response"
  decode_set_active_client_response :: "string \<Rightarrow> error + response_pb"
  get_authorization_headers :: "string \<Rightarrow> (string \<times> string) list"
  fetch :: "effect list \<Rightarrow> http_request \<Rightarrow> error + fetch_response"
  send_maps :: "effect list \<Rightarrow> (string \<times> string) list list \<Rightarrow> error + unit"

type_synonym 'a io = "client \<Rightarrow> (error + 'a) \<times> client"

definition ACTIVE_TIMEOUT_SECS :: int where
  "ACTIVE_TIMEOUT_SECS = 120"

definition SETACTIVECLIENT_LIMIT_SECS :: real where
  "SETACTIVECLIENT_LIMIT_SECS = 60"

definition logger :: "level \<Rightarrow> log_record \<Rightarrow> client \<Rightarrow> client" where
  "logger lv r c = c\<lparr>trace := trace c @ [Log lv r]\<rparr>"

text \<open>\<^verbatim>\<open>Client.__init__\<close>.\<close>

definition init :: "env \<Rightarrow> observer list \<Rightarrow> (string \<rightharpoonup> string) \<Rightarrow> client" where
  "init env observers cs =
     \<lparr>on_state_update = observers,
      cookies = cs,
      request_header =
        \<lparr>client_version = \<lparr>major_version = ''hangups-'' @ version env\<rparr>,
         language_code = ''en'',
         resource = None\<rparr>,
      client_id = PyNone,
      email = None,
      last_active_secs = 0,
      active_client_state = None,
      trace = []\<rparr>"

subsection \<open>Cookies and the authenticated POST\<close>

definition cookie_required :: "string \<Rightarrow> string" where
  "cookie_required name = ''Cookie '' @ [CHR 0x27] @ name @ [CHR 0x27] @ '' is required''"

definition get_cookie :: "client \<Rightarrow> string \<Rightarrow> error + string" where
  "get_cookie c name =
     (case cookies c name of
        Some v \<Rightarrow> Inr v
      | None \<Rightarrow> Inl (KeyError (cookie_required name)))"

definition required_cookies :: "string list" where
  "required_cookies = [''SAPISID'', ''HSID'', ''SSID'', ''APISID'', ''SID'']"

text \<open>The dictionary comprehension over \<open>required_cookies\<close>: the first missing cookie raises.\<close>

fun get_cookies :: "client \<Rightarrow> string list \<Rightarrow> error + (string \<times> string) list" where
  "get_cookies c [] = Inr []"
| "get_cookies c (name # names) =
     (case get_cookie c name of
        Inl e \<Rightarrow> Inl e
      | Inr v \<Rightarrow>
          (case get_cookies c names of
             Inl e \<Rightarrow> Inl e
           | Inr kvs \<Rightarrow> Inr ((name, v) # kvs)))"

definition base_request ::
  "env \<Rightarrow> string \<Rightarrow> string \<Rightarrow> string \<Rightarrow> string \<Rightarrow> fetch_response io" where
  "base_request env u content_type response_type d c =
     (case get_cookie c ''SAPISID'' of
        Inl e \<Rightarrow> (Inl e, c)
      | Inr sapisid_cookie \<Rightarrow>
          (let hs = AList.update ''content-type'' content_type
                      (get_authorization_headers env sapisid_cookie)
           in case get_cookies c required_cookies of
                Inl e \<Rightarrow> (Inl e, c)
              | Inr cs \<Rightarrow>
                  (let req = \<lparr>http_method = ''post'', url = u, headers = hs,
                              request_cookies = cs, params = [(''alt'', response_type)],
                              data = d\<rparr>
                   in (fetch env (trace c) req, c\<lparr>trace := trace c @ [Fetch req]\<rparr>))))"

subsection \<open>The request header and the generic RPC\<close>

text \<open>
  \<^verbatim>\<open>_get_request_header_pb\<close>. The \<open>resource\<close> field of the message is a string field:
  assigning a value that is not a string to it raises \<^verbatim>\<open>TypeError\<close>.
\<close>

definition get_request_header_pb :: "request_header io" where
  "get_request_header_pb c =
     (case client_id c of
        PyNone \<Rightarrow> (Inr (request_header c), c)
      | PyStr s \<Rightarrow>
          (let h = (request_header c)\<lparr>resource := Some s\<rparr>
           in (Inr h, c\<lparr>request_header := h\<rparr>))
      | _ \<Rightarrow> (Inl TypeError, c))"

text \<open>\<^verbatim>\<open>'{}'.format(n)\<close> for an integer: its decimal digits, after a minus sign when negative.\<close>

fun digits :: "nat \<Rightarrow> string" where
  "digits n =
     (if n < 10 then [char_of (48 + n)]
      else digits (n div 10) @ [char_of (48 + n mod 10)])"

declare digits.simps [simp del]

definition str_int :: "int \<Rightarrow> string" where
  "str_int i = (if i < 0 then CHR ''-'' # digits (nat (- i)) else digits (nat i))"

definition request_failed :: "int \<Rightarrow> string \<Rightarrow> string" where
  "request_failed st description =
     ''Request failed with status '' @ str_int st @ '': '' @ [CHR 0x27] @ description @ [CHR 0x27]"

text \<open>
  \<^verbatim>\<open>_pb_request\<close>. The source fills the \<open>response_pb\<close> object it was handed and the calling
  method returns that object; here the decoded message is the result. \<open>decode\<close> stands for
  \<^verbatim>\<open>pblite.decode(response_pb, javascript.loads(res.body.decode()), ...)\<close> at the
  response type of the call.
\<close>

definition api_url :: "string \<Rightarrow> string" where
  "api_url endpoint = ''https://clients6.google.com/chat/v1/'' @ endpoint"

definition pb_request ::
  "env \<Rightarrow> string \<Rightarrow> request_pb \<Rightarrow> (string \<Rightarrow> error + 'a response_pb_scheme)
     \<Rightarrow> 'a response_pb_scheme io" where
  "pb_request env endpoint request decode c =
     (case base_request env (api_url endpoint)
             ''application/json+protobuf'' ''protojson'' (encode env request)
             (logger DEBUG (SendingRequest endpoint request) c) of
        (Inl e, c1) \<Rightarrow> (Inl e, c1)
      | (Inr res, c1) \<Rightarrow>
          (case decode (body res) of
             Inl e \<Rightarrow> (Inl e, c1)
           | Inr response \<Rightarrow>
               (let c2 = logger DEBUG ReceivedResponse c1;
                    st = status (response_header response)
                in if st \<noteq> RESPONSE_STATUS_OK env then
                     (Inl (NetworkError
                        (request_failed st (error_description (response_header response)))), c2)
                   else (Inr response, c2))))"

subsection \<open>Raw API request methods\<close>

definition getselfinfo :: "env \<Rightarrow> get_self_info_response io" where
  "getselfinfo env c =
     (case get_request_header_pb c of
        (Inl e, c1) \<Rightarrow> (Inl e, c1)
      | (Inr h, c1) \<Rightarrow>
          pb_request env ''contacts/getselfinfo'' (GetSelfInfoRequest h)
            (decode_get_self_info_response env) c1)"

text \<open>\<^verbatim>\<open>"{}/{}".format(self._email, self._client_id)\<close>: \<^verbatim>\<open>None\<close> prints as its name. Once
  the request header has been built the client id is \<^verbatim>\<open>None\<close> or a string.\<close>

definition str_email :: "string option \<Rightarrow> string" where
  "str_email e = (case e of None \<Rightarrow> ''None'' | Some s \<Rightarrow> s)"

definition str_client_id :: "pyobj \<Rightarrow> string" where
  "str_client_id v = (case v of PyStr s \<Rightarrow> s | _ \<Rightarrow> ''None'')"

definition setactiveclient :: "env \<Rightarrow> bool \<Rightarrow> int \<Rightarrow> response_pb io" where
  "setactiveclient env is_active timeout_secs c =
     (case get_request_header_pb c of
        (Inl e, c1) \<Rightarrow> (Inl e, c1)
      | (Inr h, c1) \<Rightarrow>
          pb_request env ''clients/setactiveclient''
            (SetActiveClientRequest h is_active
               (str_email (email c1) @ ''/'' @ str_client_id (client_id c1)) timeout_secs)
            (decode_set_active_client_response env) c1)"

subsection \<open>\<^verbatim>\<open>set_active\<close>\<close>

text \<open>Lines 154 to 168 of \<^verbatim>\<open>set_active\<close>: the client id check and the request.\<close>

definition set_active_send :: "env \<Rightarrow> unit io" where
  "set_active_send env c =
     (if client_id c = PyNone then (Inr (), logger INFO CannotSetActiveClient c)
      else
        (case setactiveclient env True ACTIVE_TIMEOUT_SECS c of
           (Inl e, c1) \<Rightarrow>
             (case e of
                NetworkError m \<Rightarrow> (Inr (), logger WARNING (FailedToSetActiveClient m) c1)
              | _ \<Rightarrow> (Inl e, c1))
         | (Inr r, c1) \<Rightarrow> (Inr (), logger INFO (SetActiveClientFor ACTIVE_TIMEOUT_SECS) c1)))"

text \<open>
  \<^verbatim>\<open>set_active\<close>. \<open>now1\<close> and \<open>now2\<close> are what the two calls of \<^verbatim>\<open>time.time()\<close> return;
  times are real numbers.
\<close>

definition set_active :: "env \<Rightarrow> real \<Rightarrow> real \<Rightarrow> unit io" where
  "set_active env now1 now2 c =
     (let is_active = (active_client_state c = Some (ACTIVE_CLIENT_STATE_IS_ACTIVE env));
          timed_out = (now1 - last_active_secs c > SETACTIVECLIENT_LIMIT_SECS)
      in if \<not> is_active \<or> timed_out then
           (let c1 = c\<lparr>active_client_state := Some (ACTIVE_CLIENT_STATE_IS_ACTIVE env),
                        last_active_secs := now2\<rparr>
            in if email c1 = None then
                 (case getselfinfo env c1 of
                    (Inl e, c2) \<Rightarrow>
                      (case e of
                         NetworkError m \<Rightarrow> (Inr (), logger WARNING (FailedToFindEmail m) c2)
                       | _ \<Rightarrow> (Inl e, c2))
                  | (Inr get_self_info_response, c2) \<Rightarrow>
                      (case self_entity_properties_email get_self_info_response of
                         [] \<Rightarrow> (Inl IndexError, c2)
                       | e # es \<Rightarrow> set_active_send env (c2\<lparr>email := Some e\<rparr>)))
               else set_active_send env c1)
         else (Inr (), c))"

text \<open>A caller invoking \<^verbatim>\<open>set_active\<close> again and again, each call run to its end; an
  exception ends that call only.\<close>

fun set_active_calls :: "env \<Rightarrow> (real \<times> real) list \<Rightarrow> client \<Rightarrow> client" where
  "set_active_calls env [] c = c"
| "set_active_calls env ((now1, now2) # ts) c =
     set_active_calls env ts (snd (set_active env now1 now2 c))"

subsection \<open>The frame dispatcher\<close>

definition bootstrap_maps :: "(string \<times> string) list list" where
  \<open>bootstrap_maps = [[(''p'', ''{"3": {"1": {"1": "babel"}}}'')]]\<close>

definition add_channel_services :: "env \<Rightarrow> unit io" where
  "add_channel_services env c =
     (let c1 = logger INFO AddingChannelServices c;
          c2 = c1\<lparr>trace := trace c1 @ [SendMaps bootstrap_maps]\<rparr>
      in case send_maps env (trace c1) bootstrap_maps of
           Inl e \<Rightarrow> (Inl e, c2)
         | Inr u \<Rightarrow> (Inr (), logger INFO ChannelServicesAdded c2))"

text \<open>
  Modelled from the spec: \<^verbatim>\<open>event.Event.fire\<close> is not part of \<^verbatim>\<open>client.py\<close>. Publishing
  hands the record to every subscriber in turn and waits for each to finish; a subscriber
  is an observer that sees the record and the active-client state of the session at that
  moment, and changes nothing in the client.
\<close>

definition fire :: "state_update \<Rightarrow> client \<Rightarrow> client" where
  "fire su c =
     c\<lparr>trace := trace c @ map (\<lambda>ob. Deliver ob su (active_client_state c)) (on_state_update c)\<rparr>"

text \<open>The loop over \<^verbatim>\<open>batch_update.state_update\<close>.\<close>

fun state_updates :: "state_update list \<Rightarrow> client \<Rightarrow> client" where
  "state_updates [] c = c"
| "state_updates (su # sus) c =
     state_updates sus
       (fire su
          ((logger DEBUG (ReceivedStateUpdate su) c)
             \<lparr>active_client_state :=
                Some (header_active_client_state (state_update_header su))\<rparr>))"

definition loads :: "env \<Rightarrow> pyobj \<Rightarrow> error + pyobj" where
  "loads env v = (case v of PyStr s \<Rightarrow> json_loads env s | _ \<Rightarrow> Inl TypeError)"

text \<open>Lines 191 to 197 of \<^verbatim>\<open>_on_receive_array\<close>: the new client id.\<close>

definition new_client_id :: "env \<Rightarrow> pyobj \<Rightarrow> unit io" where
  "new_client_id env wrapper c =
     (case contains ''3'' wrapper of
        Inl e \<Rightarrow> (Inl e, c)
      | Inr present \<Rightarrow>
          if present then
            (case getitem wrapper ''3'' of
               Inl e \<Rightarrow> (Inl e, c)
             | Inr w3 \<Rightarrow>
                 (case getitem w3 ''2'' of
                    Inl e \<Rightarrow> (Inl e, c)
                  | Inr v \<Rightarrow>
                      add_channel_services env
                        (logger INFO (ReceivedNewClientId v) (c\<lparr>client_id := v\<rparr>))))
          else (Inr (), c))"

text \<open>Lines 198 to 212 of \<^verbatim>\<open>_on_receive_array\<close>: the event payload.\<close>

definition event_payload :: "env \<Rightarrow> pyobj \<Rightarrow> unit io" where
  "event_payload env wrapper c =
     (case contains ''2'' wrapper of
        Inl e \<Rightarrow> (Inl e, c)
      | Inr present \<Rightarrow>
          if present then
            (case getitem wrapper ''2'' of
               Inl e \<Rightarrow> (Inl e, c)
             | Inr w2 \<Rightarrow>
                 (case getitem w2 ''2'' of
                    Inl e \<Rightarrow> (Inl e, c)
                  | Inr p \<Rightarrow>
                      (case loads env p of
                         Inl e \<Rightarrow> (Inl e, c)
                       | Inr pblite_message \<Rightarrow>
                           (case getitem0 pblite_message of
                              Inl e \<Rightarrow> (Inl e, c)
                            | Inr marker \<Rightarrow>
                                if marker = PyStr ''cbu'' then
                                  (Inr (),
                                   state_updates (decode_batch_update env pblite_message) c)
                                else (Inr (), logger INFO (IgnoringMessage marker) c)))))
          else (Inr (), c))"

definition on_receive_array :: "env \<Rightarrow> pyobj list \<Rightarrow> unit io" where
  "on_receive_array env array c =
     (case array of
        [] \<Rightarrow> (Inl IndexError, c)
      | a0 # rest \<Rightarrow>
          if a0 = PyStr ''noop'' then (Inr (), c)
          else
            (case getitem a0 ''p'' of
               Inl e \<Rightarrow> (Inl e, c)
             | Inr p \<Rightarrow>
                 (case loads env p of
                    Inl e \<Rightarrow> (Inl e, c)
                  | Inr wrapper \<Rightarrow>
                      (case new_client_id env wrapper c of
                         (Inl e, c1) \<Rightarrow> (Inl e, c1)
                       | (Inr u, c1) \<Rightarrow> event_payload env wrapper c1))))"

subsection \<open>Client-generated ids\<close>

text \<open>
  \<^verbatim>\<open>random.randint(a, b)\<close> returns some integer \<open>N\<close> with \<open>a \<le> N \<le> b\<close>, both ends
  included. \<open>randint a b n\<close> says that \<open>n\<close> is a possible result.
\<close>

definition randint :: "int \<Rightarrow> int \<Rightarrow> int \<Rightarrow> bool" where
  "randint a b n = (a \<le> n \<and> n \<le> b)"

definition get_client_generated_id :: "int \<Rightarrow> bool" where
  "get_client_generated_id n = randint 0 (2 ^ 32) n"


subsection \<open>Reading a trace\<close>

text \<open>The HTTP requests of a trace, in the order they were issued.\<close>

fun requests :: "effect list \<Rightarrow> http_request list" where
  "requests [] = []"
| "requests (Fetch r # es) = r # requests es"
| "requests (e # es) = requests es"

text \<open>The map lists sent on the channel.\<close>

fun sent_maps :: "effect list \<Rightarrow> (string \<times> string) list list list" where
  "sent_maps [] = []"
| "sent_maps (SendMaps m # es) = m # sent_maps es"
| "sent_maps (e # es) = sent_maps es"

text \<open>The records handed to subscribers: subscriber, record, and the active-client state of
  the session at that moment.\<close>

fun deliveries :: "effect list \<Rightarrow> (observer \<times> state_update \<times> int option) list" where
  "deliveries [] = []"
| "deliveries (Deliver ob su st # es) = (ob, su, st) # deliveries es"
| "deliveries (e # es) = deliveries es"

text \<open>What a subscriber list sees of one record.\<close>

definition delivered :: "observer list \<Rightarrow> state_update \<Rightarrow> effect list" where
  "delivered obs su =
     Log DEBUG (ReceivedStateUpdate su) #
     map (\<lambda>ob. Deliver ob su (Some (header_active_client_state (state_update_header su)))) obs"

text \<open>A client that has not received a client id yet, as \<open>init\<close> leaves it.\<close>

definition no_client_id_yet :: "client \<Rightarrow> bool" where
  "no_client_id_yet c = (client_id c = PyNone \<and> resource (request_header c) = None)"

text \<open>The URLs of the HTTP requests of a trace.\<close>

definition urls :: "effect list \<Rightarrow> string list" where
  "urls d = map url (requests d)"

text \<open>A header \<open>h\<close> built for client \<open>c\<close> keeps the static fields of the template of \<open>c\<close>, keeps a
  resource once there is one, and is the template itself while there is no client id.\<close>

definition header_kept :: "client \<Rightarrow> request_header \<Rightarrow> bool" where
  "header_kept c h =
     (client_version h = client_version (request_header c) \<and>
      language_code h = language_code (request_header c) \<and>
      (resource (request_header c) \<noteq> None \<longrightarrow> resource h \<noteq> None) \<and>
      (client_id c = PyNone \<longrightarrow> h = request_header c))"

text \<open>The client is active and the last assertion is at most 60 seconds old.\<close>

definition idle :: "env \<Rightarrow> real \<Rightarrow> client \<Rightarrow> bool" where
  "idle env now1 c =
     (active_client_state c = Some (ACTIVE_CLIENT_STATE_IS_ACTIVE env) \<and>
      now1 - last_active_secs c \<le> SETACTIVECLIENT_LIMIT_SECS)"

text \<open>The requests one heartbeat may issue: nothing; the identity lookup alone or before
  the assertion, only when the email is not known yet; the assertion, only with a client id.\<close>

definition heartbeat_urls :: "client \<Rightarrow> string list \<Rightarrow> bool" where
  "heartbeat_urls c us =
     (us = [] \<or>
      us = [api_url ''contacts/getselfinfo''] \<and> email c = None \<or>
      us = [api_url ''clients/setactiveclient''] \<and> client_id c \<noteq> PyNone \<or>
      us = [api_url ''contacts/getselfinfo'', api_url ''clients/setactiveclient''] \<and>
        email c = None \<and> client_id c \<noteq> PyNone)"

text \<open>The number a string of decimal digits stands for.\<close>

definition digit_value :: "string \<Rightarrow> nat" where
  "digit_value s = foldl (\<lambda>a ch. 10 * a + (of_char ch - 48)) 0 s"

subsection \<open>Test doubles\<close>

text \<open>
  A concrete environment for the examples: protocol constants \<open>1\<close>, a table for
  \<^verbatim>\<open>json.loads\<close> that knows the texts of the example frames, a batch decoder that reads
  \<^verbatim>\<open>["cbu", [s1, s2, ...]]\<close> as records reporting the states \<open>s1, s2, ...\<close>, and a server
  that answers every request with the body it is given.
\<close>

definition test_cbu_frame :: string where
  \<open>test_cbu_frame =
     ''{"2": {"2": "['' @ [CHR 0x5C] @ ''"cbu'' @ [CHR 0x5C] @ ''", [1, 2]]"}}''\<close>

definition test_cbu_payload :: string where
  \<open>test_cbu_payload = ''["cbu", [1, 2]]''\<close>

definition test_id_frame :: string where
  \<open>test_id_frame = ''{"3": {"2": "sess-42"}}''\<close>

definition test_unknown_frame :: string where
  \<open>test_unknown_frame = ''{"2": {"2": "[7]"}}''\<close>

definition test_empty_frame :: string where
  \<open>test_empty_frame = ''{"2": {"2": "[]"}}''\<close>

definition test_json_table :: "(string \<times> pyobj) list" where
  "test_json_table =
     [(test_id_frame, PyDict [(''3'', PyDict [(''2'', PyStr ''sess-42'')])]),
      (test_cbu_frame, PyDict [(''2'', PyDict [(''2'', PyStr test_cbu_payload)])]),
      (test_cbu_payload, PyList [PyStr ''cbu'', PyList [PyInt 1, PyInt 2]]),
      (test_unknown_frame, PyDict [(''2'', PyDict [(''2'', PyStr ''[7]'')])]),
      (''[7]'', PyList [PyInt 7]),
      (test_empty_frame, PyDict [(''2'', PyDict [(''2'', PyStr ''[]'')])]),
      (''[]'', PyList [])]"

definition test_state_update :: "pyobj \<Rightarrow> state_update" where
  "test_state_update v =
     \<lparr>state_update_header = \<lparr>header_active_client_state = (case v of PyInt n \<Rightarrow> n | _ \<Rightarrow> 0)\<rparr>,
      state_update_body = []\<rparr>"

definition test_response_header :: "string \<Rightarrow> response_header" where
  "test_response_header b =
     (if b = ''ok'' \<or> b = ''noemail'' then \<lparr>status = 1, error_description = []\<rparr>
      else \<lparr>status = 3, error_description = b\<rparr>)"

definition test_env :: "string \<Rightarrow> env" where
  "test_env b =
     \<lparr>ACTIVE_CLIENT_STATE_IS_ACTIVE = 1,
      RESPONSE_STATUS_OK = 1,
      version = ''0.3.6'',
      json_loads = (\<lambda>s. case map_of test_json_table s of
                           None \<Rightarrow> Inl ValueError | Some v \<Rightarrow> Inr v),
      decode_batch_update = (\<lambda>v. case v of
                                    PyList [m, PyList items] \<Rightarrow> map test_state_update items
                                  | _ \<Rightarrow> []),
      encode = (\<lambda>r. []),
      decode_get_self_info_response = (\<lambda>s. Inr
         \<lparr>response_header = test_response_header s,
          self_entity_properties_email = (if s = ''ok'' then [''user@example.com''] else [])\<rparr>),
      decode_set_active_client_response = (\<lambda>s. Inr \<lparr>response_header = test_response_header s\<rparr>),
      get_authorization_headers = (\<lambda>s. [(''authorization'', s)]),
      fetch = (\<lambda>tr r. Inr \<lparr>code = 200, body = b\<rparr>),
      send_maps = (\<lambda>tr m. Inr ())\<rparr>"

definition test_cookies :: "string \<rightharpoonup> string" where
  "test_cookies =
     [''SAPISID'' \<mapsto> ''a'', ''HSID'' \<mapsto> ''b'', ''SSID'' \<mapsto> ''c'', ''APISID'' \<mapsto> ''d'',
      ''SID'' \<mapsto> ''e'']"

definition test_client :: client where
  "test_client = init (test_env ''ok'') [0, 1] test_cookies"

section \<open>Properties\<close>

subsection \<open>Helper lemmas\<close>

lemma requests_append [simp]: "requests (a @ b) = requests a @ requests b"
  by (induction a rule: requests.induct) simp_all

lemma sent_maps_append [simp]: "sent_maps (a @ b) = sent_maps a @ sent_maps b"
  by (induction a rule: sent_maps.induct) simp_all

lemma deliveries_append [simp]: "deliveries (a @ b) = deliveries a @ deliveries b"
  by (induction a rule: deliveries.induct) simp_all

lemma get_cookies_missing:
  "name \<in> set names \<Longrightarrow> cookies c name = None \<Longrightarrow>
   \<exists>n \<in> set names. cookies c n = None \<and>
     get_cookies c names = Inl (KeyError (cookie_required n))"
  by (induction names) (auto simp: get_cookie_def split: option.splits sum.splits)

lemma get_cookies_cong:
  "cookies c' = cookies c \<Longrightarrow> get_cookies c' names = get_cookies c names"
  by (induction names) (auto simp: get_cookie_def split: option.splits)

lemma base_request_effect:
  "\<exists>d. snd (base_request env u ct rt dt c) = c\<lparr>trace := trace c @ d\<rparr> \<and>
       (d = [] \<or> (\<exists>r. d = [Fetch r] \<and> url r = u))"
  by (auto simp: base_request_def Let_def split: sum.splits intro: exI [of _ "[]"])

lemma pb_request_effect:
  "\<exists>d. snd (pb_request env ep rq dec c) = c\<lparr>trace := trace c @ d\<rparr> \<and>
       (requests d = [] \<or> (\<exists>r. requests d = [r] \<and> url r = api_url ep))"
proof -
  let ?c0 = "logger DEBUG (SendingRequest ep rq) c"
  let ?b = "base_request env (api_url ep) ''application/json+protobuf'' ''protojson''
        (encode env rq) ?c0"
  obtain d where d: "snd ?b = ?c0\<lparr>trace := trace ?c0 @ d\<rparr>"
    "d = [] \<or> (\<exists>r. d = [Fetch r] \<and> url r = api_url ep)"
    using base_request_effect by blast
  show ?thesis
  proof (cases ?b)
    case (Pair res c1)
    with d have c1: "c1 = ?c0\<lparr>trace := trace ?c0 @ d\<rparr>" by simp
    show ?thesis
    proof (cases "\<exists>response. (\<exists>r. res = Inr r \<and> dec (body r) = Inr response)")
      case True
      then obtain r response where "res = Inr r" "dec (body r) = Inr response" by blast
      with Pair c1 d(2) show ?thesis
        by (intro exI [of _ "Log DEBUG (SendingRequest ep rq) # d @ [Log DEBUG ReceivedResponse]"])
           (auto simp: pb_request_def logger_def Let_def)
    next
      case False
      with Pair c1 d(2) show ?thesis
        by (intro exI [of _ "Log DEBUG (SendingRequest ep rq) # d"])
           (auto simp: pb_request_def logger_def Let_def split: sum.splits)
    qed
  qed
qed

lemma urls_simps [simp]:
  "urls [] = []" "urls (a @ b) = urls a @ urls b" "urls (Log lv r # d) = urls d"
  "urls (Fetch q # d) = url q # urls d"
  by (simp_all add: urls_def)

lemma header_kept_refl: "header_kept c (request_header c)"
  by (simp add: header_kept_def)

lemma header_kept_trans:
  assumes "header_kept c h" "header_kept c1 h'" "request_header c1 = h" "client_id c1 = client_id c"
  shows "header_kept c h'"
  using assms by (auto simp: header_kept_def)

lemma pb_request_urls:
  "\<exists>d. snd (pb_request env ep rq dec c) = c\<lparr>trace := trace c @ d\<rparr> \<and>
       (urls d = [] \<or> urls d = [api_url ep])"
  using pb_request_effect [of env ep rq dec c] by (auto simp: urls_def)

lemma get_request_header_pb_effect:
  "\<exists>h. snd (get_request_header_pb c) = c\<lparr>request_header := h\<rparr> \<and> header_kept c h"
  by (cases "client_id c")
     (auto simp: get_request_header_pb_def header_kept_def Let_def
        intro: exI [of _ "request_header c"])

lemma getselfinfo_effect:
  "\<exists>h d. snd (getselfinfo env c) = c\<lparr>request_header := h, trace := trace c @ d\<rparr> \<and>
       header_kept c h \<and> (urls d = [] \<or> urls d = [api_url ''contacts/getselfinfo''])"
proof -
  obtain h where h: "snd (get_request_header_pb c) = c\<lparr>request_header := h\<rparr>"
    "header_kept c h"
    using get_request_header_pb_effect by blast
  show ?thesis
  proof (cases "get_request_header_pb c")
    case (Pair r c1)
    with h(1) have c1: "c1 = c\<lparr>request_header := h\<rparr>" by simp
    show ?thesis
    proof (cases r)
      case (Inl e)
      with Pair c1 h show ?thesis
        by (intro exI [of _ h] exI [of _ "[]"]) (simp add: getselfinfo_def)
    next
      case (Inr hd)
      obtain d where "snd (pb_request env ''contacts/getselfinfo'' (GetSelfInfoRequest hd)
            (decode_get_self_info_response env) c1) = c1\<lparr>trace := trace c1 @ d\<rparr>"
        "urls d = [] \<or> urls d = [api_url ''contacts/getselfinfo'']"
        using pb_request_urls by blast
      with Inr Pair c1 h show ?thesis
        by (intro exI [of _ h] exI [of _ d]) (simp add: getselfinfo_def)
    qed
  qed
qed

lemma setactiveclient_effect:
  "\<exists>h d. snd (setactiveclient env a t c) = c\<lparr>request_header := h, trace := trace c @ d\<rparr> \<and>
       header_kept c h \<and> (urls d = [] \<or> urls d = [api_url ''clients/setactiveclient''])"
proof -
  obtain h where h: "snd (get_request_header_pb c) = c\<lparr>request_header := h\<rparr>"
    "header_kept c h"
    using get_request_header_pb_effect by blast
  show ?thesis
  proof (cases "get_request_header_pb c")
    case (Pair r c1)
    with h(1) have c1: "c1 = c\<lparr>request_header := h\<rparr>" by simp
    show ?thesis
    proof (cases r)
      case (Inl e)
      with Pair c1 h show ?thesis
        by (intro exI [of _ h] exI [of _ "[]"]) (simp add: setactiveclient_def)
    next
      case (Inr hd)
      let ?rq = "SetActiveClientRequest hd a
             (str_email (email c1) @ ''/'' @ str_client_id (client_id c1)) t"
      obtain d where "snd (pb_request env ''clients/setactiveclient'' ?rq
            (decode_set_active_client_response env) c1) = c1\<lparr>trace := trace c1 @ d\<rparr>"
        "urls d = [] \<or> urls d = [api_url ''clients/setactiveclient'']"
        using pb_request_urls by blast
      with Inr Pair c1 h show ?thesis
        by (intro exI [of _ h] exI [of _ d]) (simp add: setactiveclient_def)
    qed
  qed
qed

lemma set_active_send_effect:
  "\<exists>h d. snd (set_active_send env c) = c\<lparr>request_header := h, trace := trace c @ d\<rparr> \<and>
       header_kept c h \<and>
       (urls d = [] \<or> (urls d = [api_url ''clients/setactiveclient''] \<and> client_id c \<noteq> PyNone))"
proof (cases "client_id c = PyNone")
  case True
  then show ?thesis
    by (intro exI [of _ "request_header c"] exI [of _ "[Log INFO CannotSetActiveClient]"])
       (simp add: set_active_send_def logger_def header_kept_refl)
next
  case False
  obtain h d where hd:
    "snd (setactiveclient env True ACTIVE_TIMEOUT_SECS c) =
       c\<lparr>request_header := h, trace := trace c @ d\<rparr>"
    "header_kept c h"
    "urls d = [] \<or> urls d = [api_url ''clients/setactiveclient'']"
    using setactiveclient_effect by blast
  show ?thesis
  proof (cases "setactiveclient env True ACTIVE_TIMEOUT_SECS c")
    case (Pair r c1)
    with hd(1) have c1: "c1 = c\<lparr>request_header := h, trace := trace c @ d\<rparr>" by simp
    show ?thesis
    proof (cases r)
      case (Inl e)
      show ?thesis
      proof (cases e)
        case (NetworkError m)
        with Inl Pair c1 hd False show ?thesis
          by (intro exI [of _ h] exI [of _ "d @ [Log WARNING (FailedToSetActiveClient m)]"])
             (simp add: set_active_send_def logger_def)
      qed (use Inl Pair c1 hd False in
            \<open>(intro exI [of _ h] exI [of _ d], simp add: set_active_send_def)+\<close>)
    next
      case (Inr v)
      with Pair c1 hd False show ?thesis
        by (intro exI [of _ h]
              exI [of _ "d @ [Log INFO (SetActiveClientFor ACTIVE_TIMEOUT_SECS)]"])
           (simp add: set_active_send_def logger_def)
    qed
  qed
qed

lemma set_active_idle: "idle env now1 c \<Longrightarrow> set_active env now1 now2 c = (Inr (), c)"
  by (simp add: set_active_def idle_def Let_def)

lemma set_active_effect:
  "\<exists>h e d. snd (set_active env now1 now2 c) =
       c\<lparr>request_header := h, email := e,
         last_active_secs := (if idle env now1 c then last_active_secs c else now2),
         active_client_state := Some (ACTIVE_CLIENT_STATE_IS_ACTIVE env),
         trace := trace c @ d\<rparr> \<and>
     header_kept c h \<and> (email c \<noteq> None \<longrightarrow> e = email c) \<and>
     (idle env now1 c \<longrightarrow> d = []) \<and> heartbeat_urls c (urls d)"
proof (cases "idle env now1 c")
  case True
  have "c = c\<lparr>request_header := request_header c, email := email c,
         last_active_secs := last_active_secs c,
         active_client_state := Some (ACTIVE_CLIENT_STATE_IS_ACTIVE env),
         trace := trace c @ []\<rparr>"
    using True by (simp add: idle_def)
  with True show ?thesis
    by (intro exI [of _ "request_header c"] exI [of _ "email c"] exI [of _ "[]"])
       (simp add: set_active_idle header_kept_refl heartbeat_urls_def)
next
  case False
  let ?A = "ACTIVE_CLIENT_STATE_IS_ACTIVE env"
  let ?c1 = "c\<lparr>active_client_state := Some ?A, last_active_secs := now2\<rparr>"
  have hk: "\<And>h. header_kept ?c1 h = header_kept c h" by (simp add: header_kept_def)
  show ?thesis
  proof (cases "email c")
    case (Some a)
    obtain h d where hd: "snd (set_active_send env ?c1) =
        ?c1\<lparr>request_header := h, trace := trace ?c1 @ d\<rparr>"
      "header_kept ?c1 h"
      "urls d = [] \<or>
         (urls d = [api_url ''clients/setactiveclient''] \<and> client_id ?c1 \<noteq> PyNone)"
      using set_active_send_effect by blast
    have sa: "snd (set_active env now1 now2 c) = snd (set_active_send env ?c1)"
      using False Some by (auto simp: set_active_def idle_def Let_def)
    have "heartbeat_urls c (urls d)" using hd(3) by (auto simp: heartbeat_urls_def)
    with hd(1,2) sa False Some show ?thesis
      by (intro exI [of _ h] exI [of _ "email c"] exI [of _ d]) (simp add: hk)
  next
    case None
    obtain h d where hd: "snd (getselfinfo env ?c1) =
        ?c1\<lparr>request_header := h, trace := trace ?c1 @ d\<rparr>"
      "header_kept ?c1 h"
      "urls d = [] \<or> urls d = [api_url ''contacts/getselfinfo'']"
      using getselfinfo_effect by blast
    have sa: "set_active env now1 now2 c =
        (case getselfinfo env ?c1 of
           (Inl e, c2) \<Rightarrow>
             (case e of
                NetworkError m \<Rightarrow> (Inr (), logger WARNING (FailedToFindEmail m) c2)
              | _ \<Rightarrow> (Inl e, c2))
         | (Inr get_self_info_response, c2) \<Rightarrow>
             (case self_entity_properties_email get_self_info_response of
                [] \<Rightarrow> (Inl IndexError, c2)
              | e # es \<Rightarrow> set_active_send env (c2\<lparr>email := Some e\<rparr>)))"
      using False None by (auto simp: set_active_def idle_def Let_def)
    have g: "heartbeat_urls c (urls d)" using hd(3) None by (auto simp: heartbeat_urls_def)
    show ?thesis
    proof (cases "getselfinfo env ?c1")
      case (Pair r c2)
      with hd(1) have c2: "c2 = ?c1\<lparr>request_header := h, trace := trace ?c1 @ d\<rparr>" by simp
      show ?thesis
      proof (cases r)
        case (Inl e)
        show ?thesis
        proof (cases e)
          case (NetworkError m)
          with sa Pair Inl c2 hd(2) g False show ?thesis
            by (intro exI [of _ h] exI [of _ None]
                  exI [of _ "d @ [Log WARNING (FailedToFindEmail m)]"])
               (simp add: logger_def hk None)
        qed (use sa Pair Inl c2 hd(2) g False in
              \<open>(intro exI [of _ h] exI [of _ None] exI [of _ d], simp add: hk None)+\<close>)
      next
        case (Inr resp)
        show ?thesis
        proof (cases "self_entity_properties_email resp")
          case Nil
          with sa Pair Inr c2 hd(2) g False show ?thesis
            by (intro exI [of _ h] exI [of _ None] exI [of _ d]) (simp add: hk None)
        next
          case (Cons a as)
          let ?c3 = "c2\<lparr>email := Some a\<rparr>"
          obtain h' d' where hd': "snd (set_active_send env ?c3) =
              ?c3\<lparr>request_header := h', trace := trace ?c3 @ d'\<rparr>"
            "header_kept ?c3 h'"
            "urls d' = [] \<or>
               (urls d' = [api_url ''clients/setactiveclient''] \<and> client_id ?c3 \<noteq> PyNone)"
            using set_active_send_effect by blast
          have s3: "snd (set_active env now1 now2 c) = snd (set_active_send env ?c3)"
            using sa Pair Inr Cons by simp
          have k: "header_kept c h'"
            using header_kept_trans [of c h ?c3 h'] hd(2) hd'(2) c2 by (simp add: hk)
          have u: "heartbeat_urls c (urls (d @ d'))"
            using hd(3) hd'(3) None c2 by (auto simp: heartbeat_urls_def)
          from s3 hd'(1) c2 k u False show ?thesis
            by (intro exI [of _ h'] exI [of _ "Some a"] exI [of _ "d @ d'"]) (simp add: None)
        qed
      qed
    qed
  qed
qed



lemma set_active_calls_no_client_id:
  assumes "client_id c = PyNone"
  shows "client_id (set_active_calls env ts c) = PyNone \<and>
     request_header (set_active_calls env ts c) = request_header c \<and>
     (ts \<noteq> [] \<longrightarrow> active_client_state (set_active_calls env ts c) =
        Some (ACTIVE_CLIENT_STATE_IS_ACTIVE env)) \<and>
     (\<exists>d. trace (set_active_calls env ts c) = trace c @ d \<and>
        set (urls d) \<subseteq> {api_url ''contacts/getselfinfo''} \<and>
        (email c \<noteq> None \<longrightarrow> urls d = []))"
  using assms
proof (induction ts arbitrary: c)
  case Nil
  then show ?case by simp
next
  case (Cons t ts)
  obtain now1 now2 where t: "t = (now1, now2)" by (cases t)
  let ?c1 = "snd (set_active env now1 now2 c)"
  obtain h e d where c1: "?c1 =
       c\<lparr>request_header := h, email := e,
         last_active_secs := (if idle env now1 c then last_active_secs c else now2),
         active_client_state := Some (ACTIVE_CLIENT_STATE_IS_ACTIVE env),
         trace := trace c @ d\<rparr>" and hk: "header_kept c h"
    and em: "email c \<noteq> None \<longrightarrow> e = email c" and u: "heartbeat_urls c (urls d)"
    using set_active_effect [of env now1 now2 c] by blast
  from c1 have f: "client_id ?c1 = client_id c" "request_header ?c1 = h" "email ?c1 = e"
    "active_client_state ?c1 = Some (ACTIVE_CLIENT_STATE_IS_ACTIVE env)"
    "trace ?c1 = trace c @ d" by simp_all
  from hk Cons.prems have h: "h = request_header c" by (simp add: header_kept_def)
  from u Cons.prems have ud: "set (urls d) \<subseteq> {api_url ''contacts/getselfinfo''}"
    "email c \<noteq> None \<longrightarrow> urls d = []"
    by (auto simp: heartbeat_urls_def)
  from f(1) Cons.prems have "client_id ?c1 = PyNone" by simp
  from Cons.IH [OF this] obtain d' where ih:
    "client_id (set_active_calls env ts ?c1) = PyNone"
    "request_header (set_active_calls env ts ?c1) = request_header ?c1"
    "ts \<noteq> [] \<longrightarrow> active_client_state (set_active_calls env ts ?c1) =
        Some (ACTIVE_CLIENT_STATE_IS_ACTIVE env)"
    "trace (set_active_calls env ts ?c1) = trace ?c1 @ d'"
    "set (urls d') \<subseteq> {api_url ''contacts/getselfinfo''}"
    "email ?c1 \<noteq> None \<longrightarrow> urls d' = []" by blast
  have act: "active_client_state (set_active_calls env ts ?c1) =
        Some (ACTIVE_CLIENT_STATE_IS_ACTIVE env)"
    using ih(3) f(4) by (cases ts) simp_all
  have "trace (set_active_calls env ts ?c1) = trace c @ (d @ d')" using ih(4) f(5) by simp
  moreover have "set (urls (d @ d')) \<subseteq> {api_url ''contacts/getselfinfo''}"
    using ud(1) ih(5) by simp
  moreover have "email c \<noteq> None \<longrightarrow> urls (d @ d') = []"
    using ud(2) ih(6) em f(3) by auto
  ultimately show ?case using t ih(1,2) act f(2) h by auto
qed




lemmas test_defs = test_client_def test_env_def test_cookies_def init_def test_response_header_def
  test_json_table_def test_cbu_frame_def test_cbu_payload_def test_id_frame_def
  test_unknown_frame_def test_empty_frame_def test_state_update_def

lemmas client_defs = set_active_def set_active_send_def setactiveclient_def getselfinfo_def
  pb_request_def base_request_def get_request_header_pb_def get_cookie_def required_cookies_def
  logger_def Let_def api_url_def urls_def str_email_def str_client_id_def
  ACTIVE_TIMEOUT_SECS_def SETACTIVECLIENT_LIMIT_SECS_def

lemma sent_maps_delivered [simp]: "sent_maps (delivered obs su) = []"
  by (induction obs) (simp_all add: delivered_def)

lemma requests_delivered [simp]: "requests (delivered obs su) = []"
  by (induction obs) (simp_all add: delivered_def)

lemma deliveries_delivered [simp]:
  "deliveries (delivered obs su) =
     map (\<lambda>ob. (ob, su, Some (header_active_client_state (state_update_header su)))) obs"
  by (induction obs) (simp_all add: delivered_def)

lemma sent_maps_batch [simp]: "sent_maps (concat (map (delivered obs) rs)) = []"
  by (induction rs) simp_all

lemma requests_batch [simp]: "requests (concat (map (delivered obs) rs)) = []"
  by (induction rs) simp_all

lemma deliveries_batch:
  "deliveries (concat (map (delivered obs) rs)) =
     concat (map (\<lambda>su. map (\<lambda>ob.
        (ob, su, Some (header_active_client_state (state_update_header su)))) obs) rs)"
  by (induction rs) simp_all

lemma state_updates_effect:
  "state_updates rs c =
     c\<lparr>active_client_state :=
         (if rs = [] then active_client_state c
          else Some (header_active_client_state (state_update_header (last rs)))),
       trace := trace c @ concat (map (delivered (on_state_update c)) rs)\<rparr>"
proof (induction rs arbitrary: c)
  case Nil
  then show ?case by simp
next
  case (Cons su rs)
  show ?case
    by (simp add: Cons.IH fire_def logger_def delivered_def)
qed

lemma add_channel_services_effect:
  "add_channel_services env c =
     (let pre = trace c @ [Log INFO AddingChannelServices]
      in case send_maps env pre bootstrap_maps of
           Inl e \<Rightarrow> (Inl e, c\<lparr>trace := pre @ [SendMaps bootstrap_maps]\<rparr>)
         | Inr u \<Rightarrow> (Inr (),
             c\<lparr>trace := pre @ [SendMaps bootstrap_maps, Log INFO ChannelServicesAdded]\<rparr>))"
  by (simp add: add_channel_services_def logger_def Let_def split: sum.splits)

lemma event_payload_effect:
  "\<exists>a d. snd (event_payload env wrapper c) = c\<lparr>active_client_state := a, trace := trace c @ d\<rparr> \<and>
     sent_maps d = [] \<and> requests d = [] \<and>
     (fst (event_payload env wrapper c) \<noteq> Inr () \<longrightarrow> d = [] \<and> a = active_client_state c)"
proof -
  have same: "c = c\<lparr>active_client_state := active_client_state c, trace := trace c @ []\<rparr>"
    by simp
  show ?thesis
  proof (cases "\<exists>w2 p m. contains ''2'' wrapper = Inr True \<and> getitem wrapper ''2'' = Inr w2 \<and>
      getitem w2 ''2'' = Inr p \<and> loads env p = Inr m \<and> (\<exists>marker. getitem0 m = Inr marker)")
    case True
    then obtain w2 p m marker where h: "contains ''2'' wrapper = Inr True"
      "getitem wrapper ''2'' = Inr w2" "getitem w2 ''2'' = Inr p" "loads env p = Inr m"
      "getitem0 m = Inr marker" by blast
    show ?thesis
    proof (cases "marker = PyStr ''cbu''")
      case True
      with h show ?thesis
        by (intro exI [of _ "if decode_batch_update env m = [] then active_client_state c
              else Some (header_active_client_state (state_update_header
                (last (decode_batch_update env m))))"]
              exI [of _ "concat (map (delivered (on_state_update c)) (decode_batch_update env m))"])
           (simp add: event_payload_def state_updates_effect)
    next
      case False
      with h show ?thesis
        by (intro exI [of _ "active_client_state c"] exI [of _ "[Log INFO (IgnoringMessage marker)]"])
           (simp add: event_payload_def logger_def)
    qed
  next
    case False
    then have "event_payload env wrapper c = (fst (event_payload env wrapper c), c)"
      by (auto simp: event_payload_def split: sum.splits)
    then have "snd (event_payload env wrapper c) = c" by (metis snd_conv)
    with same False show ?thesis
      apply (intro exI [of _ "active_client_state c"] exI [of _ "[]"])
      apply simp
      done
  qed
qed

lemma new_client_id_effect:
  "\<exists>v d. snd (new_client_id env wrapper c) = c\<lparr>client_id := v, trace := trace c @ d\<rparr> \<and>
     requests d = []"
proof -
  have same: "c = c\<lparr>client_id := client_id c, trace := trace c @ []\<rparr>" by simp
  show ?thesis
  proof (cases "\<exists>w3 v. contains ''3'' wrapper = Inr True \<and> getitem wrapper ''3'' = Inr w3 \<and>
      getitem w3 ''2'' = Inr v")
    case True
    then obtain w3 v where h: "contains ''3'' wrapper = Inr True"
      "getitem wrapper ''3'' = Inr w3" "getitem w3 ''2'' = Inr v" by blast
    let ?pre = "[Log INFO (ReceivedNewClientId v), Log INFO AddingChannelServices]"
    show ?thesis
    proof (cases "send_maps env (trace c @ ?pre) bootstrap_maps")
      case (Inl e)
      with h show ?thesis
        by (intro exI [of _ v] exI [of _ "?pre @ [SendMaps bootstrap_maps]"])
           (simp add: new_client_id_def add_channel_services_effect logger_def)
    next
      case (Inr u)
      with h show ?thesis
        by (intro exI [of _ v]
              exI [of _ "?pre @ [SendMaps bootstrap_maps, Log INFO ChannelServicesAdded]"])
           (simp add: new_client_id_def add_channel_services_effect logger_def)
    qed
  next
    case False
    then have "new_client_id env wrapper c = (fst (new_client_id env wrapper c), c)"
      by (auto simp: new_client_id_def split: sum.splits)
    then have "snd (new_client_id env wrapper c) = c" by (metis snd_conv)
    with same show ?thesis
      by (intro exI [of _ "client_id c"] exI [of _ "[]"]) simp
  qed
qed

lemma on_receive_array_effect:
  "\<exists>v a d. snd (on_receive_array env array c) =
       c\<lparr>client_id := v, active_client_state := a, trace := trace c @ d\<rparr> \<and> requests d = []"
proof -
  have same: "c = c\<lparr>client_id := client_id c, active_client_state := active_client_state c,
      trace := trace c @ []\<rparr>" by simp
  show ?thesis
  proof (cases "\<exists>a0 rest p wrapper. array = a0 # rest \<and> a0 \<noteq> PyStr ''noop'' \<and>
      getitem a0 ''p'' = Inr p \<and> loads env p = Inr wrapper")
    case True
    then obtain a0 rest p wrapper where h: "array = a0 # rest" "a0 \<noteq> PyStr ''noop''"
      "getitem a0 ''p'' = Inr p" "loads env p = Inr wrapper" by blast
    obtain v d where n: "snd (new_client_id env wrapper c) =
        c\<lparr>client_id := v, trace := trace c @ d\<rparr>" "requests d = []"
      using new_client_id_effect by blast
    show ?thesis
    proof (cases "new_client_id env wrapper c")
      case (Pair r c1)
      with n(1) have c1: "c1 = c\<lparr>client_id := v, trace := trace c @ d\<rparr>" by simp
      show ?thesis
      proof (cases r)
        case (Inl e)
        with h Pair c1 n(2) show ?thesis
          by (intro exI [of _ v] exI [of _ "active_client_state c"] exI [of _ d])
             (simp add: on_receive_array_def)
      next
        case (Inr u)
        obtain a d' where e: "snd (event_payload env wrapper c1) =
            c1\<lparr>active_client_state := a, trace := trace c1 @ d'\<rparr>" "requests d' = []"
          using event_payload_effect by blast
        with h Pair Inr c1 n(2) show ?thesis
          by (intro exI [of _ v] exI [of _ a] exI [of _ "d @ d'"])
             (simp add: on_receive_array_def)
      qed
    qed
  next
    case False
    then have "on_receive_array env array c = (fst (on_receive_array env array c), c)"
      by (auto simp: on_receive_array_def split: list.splits sum.splits)
    then have "snd (on_receive_array env array c) = c" by (metis snd_conv)
    with same show ?thesis
      by (intro exI [of _ "client_id c"] exI [of _ "active_client_state c"] exI [of _ "[]"])
         simp
  qed
qed


lemma digit_value_digits: "digit_value (digits n) = n"
proof (induction n rule: digits.induct)
  case (1 n)
  show ?case
  proof (cases "n < 10")
    case True
    then show ?thesis by (subst digits.simps) (simp add: digit_value_def)
  next
    case False
    with 1 have "digit_value (digits (n div 10)) = n div 10" by simp
    moreover have "of_char (char_of (48 + n mod 10)) = 48 + n mod 10"
    proof -
      have "48 + n mod 10 < 256" by (simp add: less_le_trans [OF pos_mod_bound [of 10 n]] add.commute) 
      then show ?thesis by simp
    qed
    ultimately show ?thesis using False
      by (subst digits.simps) (simp add: digit_value_def)
  qed
qed

lemma digits_set: "set (digits n) \<subseteq> char_of ` {48 ..< 58 :: nat}"
proof (induction n rule: digits.induct)
  case (1 n)
  show ?case
  proof (cases "n < 10")
    case True
    then show ?thesis by (subst digits.simps) auto
  next
    case False
    have "48 + n mod 10 \<in> {48 ..< 58}" by simp
    with 1 False show ?thesis by (subst digits.simps) auto
  qed
qed

lemma digits_range:
  assumes "ch \<in> set (digits n)"
  shows "48 \<le> (of_char ch :: nat) \<and> (of_char ch :: nat) < 58"
proof -
  from assms digits_set [of n] obtain k :: nat where "ch = char_of k" "48 \<le> k" "k < 58"
    by auto
  then show ?thesis by simp
qed

lemma digits_not_colon: "CHR '':'' \<notin> set (digits n)"
  using digits_range [of "CHR '':''" n] by auto

lemma digits_not_minus: "CHR ''-'' \<notin> set (digits n)"
  using digits_range [of "CHR ''-''" n] by auto

lemma digits_inj: "digits m = digits n \<Longrightarrow> m = n"
  using digit_value_digits by metis

lemma str_int_inj: "str_int i = str_int j \<Longrightarrow> i = j"
proof -
  assume eq: "str_int i = str_int j"
  have neg: "\<And>m n. CHR ''-'' # digits m \<noteq> digits n"
    using digits_not_minus by (metis list.set_intros(1))
  show ?thesis
  proof (cases "i < 0"; cases "j < 0")
    assume "i < 0" "j < 0"
    with eq have "nat (- i) = nat (- j)" by (auto simp: str_int_def dest: digits_inj)
    with \<open>i < 0\<close> \<open>j < 0\<close> show ?thesis by simp
  next
    assume "i < 0" "\<not> j < 0"
    with eq neg show ?thesis by (auto simp: str_int_def)
  next
    assume "\<not> i < 0" "j < 0"
    with eq neg [of "nat (- j)" "nat i"] show ?thesis by (auto simp: str_int_def)
  next
    assume "\<not> i < 0" "\<not> j < 0"
    with eq have "nat i = nat j" by (auto simp: str_int_def dest: digits_inj)
    with \<open>\<not> i < 0\<close> \<open>\<not> j < 0\<close> show ?thesis by simp
  qed
qed

lemma str_int_not_colon: "CHR '':'' \<notin> set (str_int i)"
  by (simp add: str_int_def digits_not_colon)

lemma split_at_first:
  assumes "xs @ x # r = ys @ x # r'" "x \<notin> set xs" "x \<notin> set ys"
  shows "xs = ys \<and> r = r'"
  using assms
proof (induction xs arbitrary: ys)
  case Nil
  then show ?case by (cases ys) auto
next
  case (Cons a xs)
  then show ?case by (cases ys) auto
qed

lemma request_failed_inj:
  assumes "request_failed st d = request_failed st' d'"
  shows "st = st' \<and> d = d'"
proof -
  from assms have "str_int st @ CHR '':'' # (CHR '' '' # CHR 0x27 # d @ [CHR 0x27]) =
      str_int st' @ CHR '':'' # (CHR '' '' # CHR 0x27 # d' @ [CHR 0x27])"
    by (simp add: request_failed_def)
  from split_at_first [OF this str_int_not_colon str_int_not_colon]
  show ?thesis by (auto dest: str_int_inj)
qed

lemma pb_request_trace_head:
  "\<exists>d. trace (snd (pb_request env ep rq dec c)) =
     trace c @ Log DEBUG (SendingRequest ep rq) # d"
proof -
  let ?c0 = "logger DEBUG (SendingRequest ep rq) c"
  let ?b = "base_request env (api_url ep) ''application/json+protobuf'' ''protojson''
        (encode env rq) ?c0"
  obtain d where d: "snd ?b = ?c0\<lparr>trace := trace ?c0 @ d\<rparr>"
    using base_request_effect by blast
  show ?thesis
  proof (cases ?b)
    case (Pair res c1)
    with d have c1: "c1 = ?c0\<lparr>trace := trace ?c0 @ d\<rparr>" by simp
    show ?thesis
    proof (cases "\<exists>response. (\<exists>r. res = Inr r \<and> dec (body r) = Inr response)")
      case True
      then obtain r response where "res = Inr r" "dec (body r) = Inr response" by blast
      with Pair c1 show ?thesis
        by (intro exI [of _ "d @ [Log DEBUG ReceivedResponse]"])
           (simp add: pb_request_def logger_def Let_def)
    next
      case False
      with Pair c1 show ?thesis
        by (intro exI [of _ d])
           (auto simp: pb_request_def logger_def Let_def split: sum.splits)
    qed
  qed
qed

subsection \<open>The frame dispatcher\<close>

text \<open>
  C1. A push frame whose event payload starts with the marker \<^verbatim>\<open>cbu\<close> and decodes to the
  records \<open>rs\<close>: the dispatcher returns normally and goes through the records in batch
  order. For each record it logs the record, overwrites the active-client state of the
  session with the state reported in the header of the record, and then hands the record to
  every subscriber in turn; each subscriber sees the state just written, and the next record
  is taken up only after the last subscriber. After the batch the active-client state is
  the one the last record reports (the old one when the batch is empty), and nothing else of
  the client has changed. \<open>c1\<close> is the client as the new-client-id part of the same frame
  left it.
\<close>

theorem batch_update_in_order:
  assumes "array = a0 # rest" and "a0 \<noteq> PyStr ''noop''" and "getitem a0 ''p'' = Inr p"
    and "loads env p = Inr wrapper"
    and "new_client_id env wrapper c = (Inr (), c1)"
    and "contains ''2'' wrapper = Inr True" and "getitem wrapper ''2'' = Inr w2"
    and "getitem w2 ''2'' = Inr q" and "loads env q = Inr pblite_message"
    and "getitem0 pblite_message = Inr (PyStr ''cbu'')"
    and "decode_batch_update env pblite_message = rs"
  shows "on_receive_array env array c =
      (Inr (),
       c1\<lparr>active_client_state :=
            (if rs = [] then active_client_state c1
             else Some (header_active_client_state (state_update_header (last rs)))),
          trace := trace c1 @ concat (map (delivered (on_state_update c1)) rs)\<rparr>) \<and>
     deliveries (trace (snd (on_receive_array env array c))) =
       deliveries (trace c1) @
       concat (map (\<lambda>su. map (\<lambda>ob.
          (ob, su, Some (header_active_client_state (state_update_header su))))
          (on_state_update c1)) rs)"
  using assms
  by (simp add: on_receive_array_def event_payload_def state_updates_effect deliveries_batch)

theorem batch_update_in_order_witness:
  "active_client_state
     (snd (on_receive_array (test_env ''ok'') [PyDict [(''p'', PyStr test_cbu_frame)]]
        test_client)) = Some 2 \<and>
   deliveries (trace
     (snd (on_receive_array (test_env ''ok'') [PyDict [(''p'', PyStr test_cbu_frame)]]
        test_client))) =
     [(0, test_state_update (PyInt 1), Some 1), (1, test_state_update (PyInt 1), Some 1),
      (0, test_state_update (PyInt 2), Some 2), (1, test_state_update (PyInt 2), Some 2)]"
proof -
  let ?env = "test_env ''ok''"
  let ?a0 = "PyDict [(''p'', PyStr test_cbu_frame)]"
  let ?w = "PyDict [(''2'', PyDict [(''2'', PyStr test_cbu_payload)])]"
  let ?m = "PyList [PyStr ''cbu'', PyList [PyInt 1, PyInt 2]]"
  have 1: "[?a0] = ?a0 # []" by simp
  have 2: "?a0 \<noteq> PyStr ''noop''" by simp
  have 3: "getitem ?a0 ''p'' = Inr (PyStr test_cbu_frame)" by simp
  have 4: "loads ?env (PyStr test_cbu_frame) = Inr ?w"
    by (simp add: loads_def test_defs)
  have 5: "new_client_id ?env ?w test_client = (Inr (), test_client)"
    by (simp add: new_client_id_def)
  have 6: "contains ''2'' ?w = Inr True" by simp
  have 7: "getitem ?w ''2'' = Inr (PyDict [(''2'', PyStr test_cbu_payload)])" by simp
  have 8: "getitem (PyDict [(''2'', PyStr test_cbu_payload)]) ''2'' =
      Inr (PyStr test_cbu_payload)" by simp
  have 9: "loads ?env (PyStr test_cbu_payload) = Inr ?m"
    by (simp add: loads_def test_defs)
  have 10: "getitem0 ?m = Inr (PyStr ''cbu'')" by simp
  have 11: "decode_batch_update ?env ?m = [test_state_update (PyInt 1), test_state_update (PyInt 2)]"
    by (simp add: test_defs)
  from batch_update_in_order [OF 1 2 3 4 5 6 7 8 9 10 11]
  show ?thesis by (simp add: test_defs)
qed






subsection \<open>The heartbeat\<close>




text \<open>
  C6, as amended. However often \<^verbatim>\<open>set_active\<close> is called while no client id has been
  received, no active-client assertion request is issued and the client id stays unset. The
  only request such a call can issue is the lookup of the email, and none is issued once the
  email is known. The stored state does not stay unset: after the first call it is active.
\<close>

theorem set_active_without_client_id:
  assumes "client_id c = PyNone"
  shows "client_id (set_active_calls env ts c) = PyNone \<and>
     (ts \<noteq> [] \<longrightarrow> active_client_state (set_active_calls env ts c) =
        Some (ACTIVE_CLIENT_STATE_IS_ACTIVE env)) \<and>
     (\<exists>d. trace (set_active_calls env ts c) = trace c @ d \<and>
        set (urls d) \<subseteq> {api_url ''contacts/getselfinfo''} \<and>
        count_list (urls d) (api_url ''clients/setactiveclient'') = 0 \<and>
        (email c \<noteq> None \<longrightarrow> urls d = []))"
proof -
  from set_active_calls_no_client_id [OF assms, of env ts] obtain d where d:
    "client_id (set_active_calls env ts c) = PyNone"
    "ts \<noteq> [] \<longrightarrow> active_client_state (set_active_calls env ts c) =
        Some (ACTIVE_CLIENT_STATE_IS_ACTIVE env)"
    "trace (set_active_calls env ts c) = trace c @ d"
    "set (urls d) \<subseteq> {api_url ''contacts/getselfinfo''}"
    "email c \<noteq> None \<longrightarrow> urls d = []" by blast
  have "api_url ''clients/setactiveclient'' \<notin> set (urls d)"
    using d(4) by (auto simp: api_url_def)
  then have "count_list (urls d) (api_url ''clients/setactiveclient'') = 0"
    by (simp add: count_list_0_iff)
  with d show ?thesis by blast
qed

theorem set_active_without_client_id_witness:
  "client_id test_client = PyNone \<and>
   client_id (set_active_calls (test_env ''ok'') [(100, 100), (100.5, 100.5)] test_client) = PyNone \<and>
   active_client_state (set_active_calls (test_env ''ok'') [(100, 100), (100.5, 100.5)]
      test_client) = Some 1 \<and>
   urls (trace (set_active_calls (test_env ''ok'') [(100, 100), (100.5, 100.5)]
      (test_client\<lparr>email := Some ''user@example.com''\<rparr>))) = []"
proof -
  let ?ce = "test_client\<lparr>email := Some ''user@example.com''\<rparr>"
  have 1: "client_id test_client = PyNone" "client_id ?ce = PyNone"
    by (simp_all add: test_client_def init_def)
  have 2: "ACTIVE_CLIENT_STATE_IS_ACTIVE (test_env ''ok'') = 1" by (simp add: test_env_def)
  have 3: "email ?ce \<noteq> None" "trace ?ce = []" by (simp_all add: test_client_def init_def)
  from set_active_without_client_id [OF 1(1), of "test_env ''ok''" "[(100, 100), (100.5, 100.5)]"]
    1 2
  have A: "client_id (set_active_calls (test_env ''ok'') [(100, 100), (100.5, 100.5)]
      test_client) = PyNone"
    "active_client_state (set_active_calls (test_env ''ok'') [(100, 100), (100.5, 100.5)]
      test_client) = Some 1" by simp_all
  from set_active_without_client_id [OF 1(2), of "test_env ''ok''" "[(100, 100), (100.5, 100.5)]"]
    3
  have B: "urls (trace (set_active_calls (test_env ''ok'') [(100, 100), (100.5, 100.5)] ?ce)) = []"
    by auto
  from 1 A B show ?thesis by blast
qed

text \<open>
  The claim as stated fails: two calls half a second apart on a fresh client, with no client
  id, issue one request (the lookup of the email) and leave the state active.
\<close>

theorem set_active_without_client_id_lookup:
  "client_id test_client = PyNone \<and>
   urls (trace (set_active_calls (test_env ''ok'') [(100, 100), (100.5, 100.5)] test_client)) =
     [api_url ''contacts/getselfinfo''] \<and>
   active_client_state (set_active_calls (test_env ''ok'') [(100, 100), (100.5, 100.5)]
     test_client) = Some (ACTIVE_CLIENT_STATE_IS_ACTIVE (test_env ''ok'')) \<and>
   active_client_state (set_active_calls (test_env ''ok'') [(100, 100), (100.5, 100.5)]
     test_client) \<noteq> None"
  by (simp add: test_defs client_defs)

text \<open>
  C7. A response to the identity lookup with status OK and an empty email list: the lookup
  returns normally, reading the first email raises \<^verbatim>\<open>IndexError\<close> outside the
  \<^verbatim>\<open>try\<close> block, and the exception leaves \<^verbatim>\<open>set_active\<close>, after one request and with the
  state already set to active.
\<close>

theorem set_active_raises_index_error:
  "fst (set_active (test_env ''noemail'') 100 100 (init (test_env ''noemail'') [] test_cookies)) =
     Inl IndexError \<and>
   active_client_state (snd (set_active (test_env ''noemail'') 100 100
       (init (test_env ''noemail'') [] test_cookies))) = Some 1 \<and>
   urls (trace (snd (set_active (test_env ''noemail'') 100 100
       (init (test_env ''noemail'') [] test_cookies)))) = [api_url ''contacts/getselfinfo'']"
  by (simp add: test_defs client_defs)

theorem set_active_raises_index_error_witness:
  "fst (set_active (test_env ''noemail'') 100 100 (init (test_env ''noemail'') [] test_cookies)) =
     Inl IndexError"
  using set_active_raises_index_error by (rule conjunct1)

subsection \<open>The generic RPC\<close>

text \<open>
  C4. Whatever the endpoint, once the authenticated POST has returned a response and its
  body has been decoded, the generic RPC returns the decoded message when the status of its
  header is \<^verbatim>\<open>RESPONSE_STATUS_OK\<close>, and otherwise raises \<^verbatim>\<open>NetworkError\<close>, and nothing
  else, with the message \<^verbatim>\<open>Request failed with status <status>: '<description>'\<close>. The
  message determines the status and the description it was built from.
\<close>

theorem pb_request_status:
  assumes "base_request env (api_url endpoint) ''application/json+protobuf'' ''protojson''
             (encode env request) (logger DEBUG (SendingRequest endpoint request) c) = (Inr res, c1)"
    and "decode (body res) = Inr response"
  shows "pb_request env endpoint request decode c =
     (if status (response_header response) = RESPONSE_STATUS_OK env then Inr response
      else Inl (NetworkError (request_failed (status (response_header response))
                  (error_description (response_header response)))),
      logger DEBUG ReceivedResponse c1) \<and>
     (\<forall>st description.
        request_failed st description =
          request_failed (status (response_header response))
            (error_description (response_header response)) \<longrightarrow>
        st = status (response_header response) \<and>
        description = error_description (response_header response))"
proof (intro conjI allI impI)
  show "pb_request env endpoint request decode c =
     (if status (response_header response) = RESPONSE_STATUS_OK env then Inr response
      else Inl (NetworkError (request_failed (status (response_header response))
                  (error_description (response_header response)))),
      logger DEBUG ReceivedResponse c1)"
    using assms by (simp add: pb_request_def Let_def)
next
  fix st description
  assume "request_failed st description =
      request_failed (status (response_header response))
        (error_description (response_header response))"
  from request_failed_inj [OF this]
  show "st = status (response_header response)"
    and "description = error_description (response_header response)" by simp_all
qed

theorem pb_request_status_witness:
  "fst (pb_request (test_env ''busy'') ''contacts/getselfinfo''
      (GetSelfInfoRequest (request_header test_client))
      (decode_get_self_info_response (test_env ''busy'')) test_client) =
     Inl (NetworkError (''Request failed with status 3: '' @ [CHR 0x27] @ ''busy'' @ [CHR 0x27])) \<and>
   fst (pb_request (test_env ''ok'') ''contacts/getselfinfo''
      (GetSelfInfoRequest (request_header test_client))
      (decode_get_self_info_response (test_env ''ok'')) test_client) =
     Inr \<lparr>response_header = \<lparr>status = 1, error_description = []\<rparr>,
          self_entity_properties_email = [''user@example.com'']\<rparr>"
proof -
  let ?rq = "GetSelfInfoRequest (request_header test_client)"
  let ?ep = "''contacts/getselfinfo''"
  let ?c0 = "logger DEBUG (SendingRequest ?ep ?rq) test_client"
  have b: "\<And>b. \<exists>c1. base_request (test_env b) (api_url ?ep) ''application/json+protobuf''
      ''protojson'' (encode (test_env b) ?rq) ?c0 = (Inr \<lparr>code = 200, body = b\<rparr>, c1)"
    by (simp add: test_defs base_request_def get_cookie_def required_cookies_def Let_def
        logger_def)
  obtain c1 where 1: "base_request (test_env ''busy'') (api_url ?ep) ''application/json+protobuf''
      ''protojson'' (encode (test_env ''busy'') ?rq) ?c0 = (Inr \<lparr>code = 200, body = ''busy''\<rparr>, c1)"
    using b by blast
  have 2: "decode_get_self_info_response (test_env ''busy'') (body \<lparr>code = 200, body = ''busy''\<rparr>) =
      Inr \<lparr>response_header = \<lparr>status = 3, error_description = ''busy''\<rparr>,
           self_entity_properties_email = []\<rparr>"
    by (simp add: test_defs)
  obtain c2 where 3: "base_request (test_env ''ok'') (api_url ?ep) ''application/json+protobuf''
      ''protojson'' (encode (test_env ''ok'') ?rq) ?c0 = (Inr \<lparr>code = 200, body = ''ok''\<rparr>, c2)"
    using b by blast
  have 4: "decode_get_self_info_response (test_env ''ok'') (body \<lparr>code = 200, body = ''ok''\<rparr>) =
      Inr \<lparr>response_header = \<lparr>status = 1, error_description = []\<rparr>,
           self_entity_properties_email = [''user@example.com'']\<rparr>"
    by (simp add: test_defs)
  have 5: "request_failed 3 ''busy'' =
      ''Request failed with status 3: '' @ [CHR 0x27] @ ''busy'' @ [CHR 0x27]"
    by code_simp
  have 6: "RESPONSE_STATUS_OK (test_env ''busy'') = 1" "RESPONSE_STATUS_OK (test_env ''ok'') = 1"
    by (simp_all add: test_env_def)
  note busy = pb_request_status [of "test_env ''busy''" ?ep ?rq test_client _ c1
      "decode_get_self_info_response (test_env ''busy'')", OF 1 2, THEN conjunct1]
  note ok = pb_request_status [of "test_env ''ok''" ?ep ?rq test_client _ c2
      "decode_get_self_info_response (test_env ''ok'')", OF 3 4, THEN conjunct1]
  show ?thesis by (simp add: busy ok 5 6)
qed

text \<open>
  C5. When one of the five required cookies SAPISID, HSID, SSID, APISID, SID is missing from
  the cookie dictionary, the authenticated POST raises \<^verbatim>\<open>KeyError\<close> (a configuration
  error, not a \<^verbatim>\<open>NetworkError\<close>) naming a missing cookie and leaves the client, its trace
  included, as it was: no request is issued. The generic RPC built on it raises the same
  error, and its trace gains the debug line of the call and no request.
\<close>

theorem missing_cookie_fails_before_fetch:
  assumes "name \<in> set required_cookies" and "cookies c name = None"
  shows "\<exists>n \<in> set required_cookies. cookies c n = None \<and>
     base_request env u content_type response_type d c =
       (Inl (KeyError (cookie_required n)), c) \<and>
     pb_request env endpoint request decode c =
       (Inl (KeyError (cookie_required n)), logger DEBUG (SendingRequest endpoint request) c) \<and>
     requests (trace (logger DEBUG (SendingRequest endpoint request) c)) = requests (trace c)"
proof (cases "cookies c ''SAPISID''")
  case None
  then show ?thesis
    by (auto simp: pb_request_def base_request_def get_cookie_def required_cookies_def logger_def)
next
  case (Some v)
  from get_cookies_missing [OF assms] obtain n where
    "n \<in> set required_cookies" "cookies c n = None"
    "get_cookies c required_cookies = Inl (KeyError (cookie_required n))" by blast
  moreover from this(3)
  have "get_cookies (logger DEBUG (SendingRequest endpoint request) c) required_cookies =
      Inl (KeyError (cookie_required n))"
    using get_cookies_cong [of "logger DEBUG (SendingRequest endpoint request) c" c]
    by (simp add: logger_def)
  ultimately show ?thesis using Some
    by (auto simp: pb_request_def base_request_def get_cookie_def logger_def)
qed

theorem missing_cookie_fails_before_fetch_witness:
  "''SSID'' \<in> set required_cookies \<and>
   cookies (test_client\<lparr>cookies := test_cookies(''SSID'' := None)\<rparr>) ''SSID'' = None \<and>
   base_request (test_env ''ok'') (api_url ''contacts/getselfinfo'') ''application/json+protobuf''
       ''protojson'' [] (test_client\<lparr>cookies := test_cookies(''SSID'' := None)\<rparr>) =
     (Inl (KeyError (cookie_required ''SSID'')),
      test_client\<lparr>cookies := test_cookies(''SSID'' := None)\<rparr>)"
proof -
  let ?c = "test_client\<lparr>cookies := test_cookies(''SSID'' := None)\<rparr>"
  have a: "''SSID'' \<in> set required_cookies" by (simp add: required_cookies_def)
  have b: "cookies ?c ''SSID'' = None" by simp
  have c: "\<And>n. n \<in> set required_cookies \<Longrightarrow> cookies ?c n = None \<Longrightarrow> n = ''SSID''"
    by (auto simp: required_cookies_def test_cookies_def)
  from missing_cookie_fails_before_fetch [OF a b, of "test_env ''ok''"
      "api_url ''contacts/getselfinfo''" "''application/json+protobuf''" "''protojson''" "[]"]
  show ?thesis using a b c by blast
qed

text \<open>
  C10. A new client has received no client id and its header template has no resource. While
  that is so, the header built for a request is the template, without a resource, and
  \<^verbatim>\<open>set_active\<close> keeps it so. With a client id \<open>s\<close>, the header built is the template with
  resource \<open>s\<close>, and the template is updated to it. Building a header, \<^verbatim>\<open>set_active\<close> and
  the dispatcher keep the client version and the language code of the template and never
  remove a resource from it. The header built is the one the request of an RPC carries.
\<close>

theorem request_header_resource:
  "no_client_id_yet (init env observers cs) \<and>
   (no_client_id_yet c \<longrightarrow>
      get_request_header_pb c = (Inr (request_header c), c) \<and>
      resource (request_header c) = None \<and>
      no_client_id_yet (snd (set_active env now1 now2 c))) \<and>
   (client_id c = PyStr s \<longrightarrow>
      get_request_header_pb c =
        (Inr ((request_header c)\<lparr>resource := Some s\<rparr>),
         c\<lparr>request_header := (request_header c)\<lparr>resource := Some s\<rparr>\<rparr>)) \<and>
   header_kept c (request_header (snd (get_request_header_pb c))) \<and>
   header_kept c (request_header (snd (set_active env now1 now2 c))) \<and>
   request_header (snd (on_receive_array env array c)) = request_header c \<and>
   (\<forall>h c1. get_request_header_pb c = (Inr h, c1) \<longrightarrow>
      (\<exists>d. trace (snd (getselfinfo env c)) =
         trace c @ Log DEBUG (SendingRequest ''contacts/getselfinfo'' (GetSelfInfoRequest h)) # d) \<and>
      (\<exists>d. trace (snd (setactiveclient env is_active timeout_secs c)) =
         trace c @ Log DEBUG (SendingRequest ''clients/setactiveclient''
           (SetActiveClientRequest h is_active
              (str_email (email c) @ ''/'' @ str_client_id (client_id c)) timeout_secs)) # d))"
proof (intro conjI impI allI)
  show "no_client_id_yet (init env observers cs)"
    by (simp add: no_client_id_yet_def init_def)
next
  assume n: "no_client_id_yet c"
  then show "get_request_header_pb c = (Inr (request_header c), c)"
    and "resource (request_header c) = None"
    by (simp_all add: no_client_id_yet_def get_request_header_pb_def)
  obtain h e d where "snd (set_active env now1 now2 c) =
       c\<lparr>request_header := h, email := e,
         last_active_secs := (if idle env now1 c then last_active_secs c else now2),
         active_client_state := Some (ACTIVE_CLIENT_STATE_IS_ACTIVE env),
         trace := trace c @ d\<rparr>" "header_kept c h"
    using set_active_effect [of env now1 now2 c] by blast
  with n show "no_client_id_yet (snd (set_active env now1 now2 c))"
    by (simp add: no_client_id_yet_def header_kept_def)
next
  assume "client_id c = PyStr s"
  then show "get_request_header_pb c =
        (Inr ((request_header c)\<lparr>resource := Some s\<rparr>),
         c\<lparr>request_header := (request_header c)\<lparr>resource := Some s\<rparr>\<rparr>)"
    by (simp add: get_request_header_pb_def Let_def)
next
  obtain h where "snd (get_request_header_pb c) = c\<lparr>request_header := h\<rparr>" "header_kept c h"
    using get_request_header_pb_effect by blast
  then show "header_kept c (request_header (snd (get_request_header_pb c)))" by simp
next
  obtain h e d where "snd (set_active env now1 now2 c) =
       c\<lparr>request_header := h, email := e,
         last_active_secs := (if idle env now1 c then last_active_secs c else now2),
         active_client_state := Some (ACTIVE_CLIENT_STATE_IS_ACTIVE env),
         trace := trace c @ d\<rparr>" "header_kept c h"
    using set_active_effect [of env now1 now2 c] by blast
  then show "header_kept c (request_header (snd (set_active env now1 now2 c)))" by simp
next
  obtain v a d where "snd (on_receive_array env array c) =
       c\<lparr>client_id := v, active_client_state := a, trace := trace c @ d\<rparr>"
    using on_receive_array_effect by blast
  then show "request_header (snd (on_receive_array env array c)) = request_header c" by simp
next
  fix h c1
  assume g: "get_request_header_pb c = (Inr h, c1)"
  then have c1: "trace c1 = trace c" "email c1 = email c" "client_id c1 = client_id c"
    by (auto simp: get_request_header_pb_def Let_def split: pyobj.splits)
  from g c1 pb_request_trace_head [of env "''contacts/getselfinfo''" "GetSelfInfoRequest h"
      "decode_get_self_info_response env" c1]
  show "\<exists>d. trace (snd (getselfinfo env c)) =
         trace c @ Log DEBUG (SendingRequest ''contacts/getselfinfo'' (GetSelfInfoRequest h)) # d"
    by (simp add: getselfinfo_def)
  from g c1 pb_request_trace_head [of env "''clients/setactiveclient''"
      "SetActiveClientRequest h is_active
         (str_email (email c) @ ''/'' @ str_client_id (client_id c)) timeout_secs"
      "decode_set_active_client_response env" c1]
  show "\<exists>d. trace (snd (setactiveclient env is_active timeout_secs c)) =
         trace c @ Log DEBUG (SendingRequest ''clients/setactiveclient''
           (SetActiveClientRequest h is_active
              (str_email (email c) @ ''/'' @ str_client_id (client_id c)) timeout_secs)) # d"
    by (simp add: setactiveclient_def)
qed

theorem request_header_resource_witness:
  "no_client_id_yet test_client \<and>
   get_request_header_pb test_client = (Inr (request_header test_client), test_client) \<and>
   resource (request_header test_client) = None \<and>
   resource (request_header (snd (get_request_header_pb
     (test_client\<lparr>client_id := PyStr ''sess-42''\<rparr>)))) = Some ''sess-42'' \<and>
   language_code (request_header (snd (get_request_header_pb
     (test_client\<lparr>client_id := PyStr ''sess-42''\<rparr>)))) = ''en''"
proof -
  let ?c = "test_client\<lparr>client_id := PyStr ''sess-42''\<rparr>"
  have 1: "no_client_id_yet test_client"
    by (simp add: no_client_id_yet_def test_client_def init_def)
  have 2: "client_id ?c = PyStr ''sess-42''" by simp
  have 3: "language_code (request_header test_client) = ''en''"
    by (simp add: test_client_def init_def)
  from request_header_resource [of "test_env ''ok''" "[0, 1]" test_cookies test_client 0 0]
    1
  have A: "get_request_header_pb test_client = (Inr (request_header test_client), test_client)"
    "resource (request_header test_client) = None" by blast+
  from request_header_resource [of "test_env ''ok''" "[0, 1]" test_cookies ?c 0 0 "''sess-42''"]
    2
  have "get_request_header_pb ?c =
        (Inr ((request_header ?c)\<lparr>resource := Some ''sess-42''\<rparr>),
         ?c\<lparr>request_header := (request_header ?c)\<lparr>resource := Some ''sess-42''\<rparr>\<rparr>)"
    by blast
  with 1 3 A show ?thesis by simp
qed

subsection \<open>Client-generated ids\<close>

text \<open>
  C9. The generator draws from \<^verbatim>\<open>random.randint(0, 2**32)\<close>, whose upper end is included:
  \<open>2 ^ 32 = 4294967296\<close> is a possible result, and it is not a 32-bit value.
\<close>

theorem get_client_generated_id_upper_end:
  "get_client_generated_id 4294967296 \<and> \<not> (4294967296 \<le> (2::int) ^ 32 - 1)"
  by (simp add: get_client_generated_id_def randint_def)

end
